theory Spec2Isabelle
  imports Complex_Main
begin

section \<open>Structured response types (schemas.py)\<close>

text \<open>
  Every exception the modelled code can raise is a value. \<open>KeyError\<close> carries the key
  that was looked up, \<open>ValueError\<close> and \<open>ValidationError\<close> a short tag of the check
  that failed, \<open>CollaboratorError\<close> whatever the language model, the tool loop or a
  prompt template raised, and \<open>GraphRecursionError\<close> is the graph runtime's step limit.
\<close>

datatype error =
    KeyError string
  | ValueError string
  | ValidationError string
  | CollaboratorError string
  | GraphRecursionError

text \<open>
  A field declared \<^verbatim>\<open>List[str] = Field(default_factory=lambda: list)\<close> holds a list of
  strings when the caller passes one. When the caller omits it, the factory is called
  and returns what the lambda returns: the class \<^verbatim>\<open>list\<close> itself, not an empty list
  (pydantic does not validate defaults). \<open>ListClass\<close> is that value.
\<close>

datatype py_list_field = StrList "string list" | ListClass

text \<open>Python truthiness, as \<^verbatim>\<open>not self.sources\<close> reads it: a list is true when it is
  not empty, a class object is always true.\<close>

fun truthy :: "py_list_field \<Rightarrow> bool" where
  "truthy (StrList xs) = (xs \<noteq> [])"
| "truthy ListClass = True"

text \<open>The number of sources a response carries: the length of the list, and none at all
  when the field holds the class object (\<^verbatim>\<open>len\<close> of it raises).\<close>

fun source_count :: "py_list_field \<Rightarrow> nat option" where
  "source_count (StrList xs) = Some (length xs)"
| "source_count ListClass = None"

text \<open>
  A finite Python float is modelled by its exact value, a real number; comparing two
  floats compares these values. The literal \<^verbatim>\<open>0.7\<close> denotes the IEEE-754 double
  \<open>3152519739159347 / 2^52\<close>, slightly below seven tenths.
\<close>

definition float_0_7 :: real where
  "float_0_7 = 3152519739159347 / 4503599627370496"

definition float_0_9 :: real where
  "float_0_9 = 8106479329266893 / 9007199254740992"

record AnswerResponse =
  question :: string
  answer :: string
  sources :: py_list_field
  confidence :: real
  timestamp :: nat

text \<open>The keyword arguments of a construction: \<open>None\<close> is an argument left out.\<close>

record AnswerResponse_kwargs =
  arg_question :: "string option"
  arg_answer :: "string option"
  arg_sources :: "string list option"
  arg_confidence :: "real option"
  arg_timestamp :: "nat option"

text \<open>The \<^verbatim>\<open>model_validator(mode='after')\<close> of \<^verbatim>\<open>AnswerResponse\<close>.\<close>

definition validate_sources_with_confidence :: "AnswerResponse \<Rightarrow> error + AnswerResponse" where
  "validate_sources_with_confidence self =
     (if float_0_7 \<le> AnswerResponse.confidence self \<and> \<not> truthy (sources self)
      then Inl (ValueError ''Sources cannot be empty when confidence is high'')
      else Inr self)"

text \<open>
  Construction: the required fields must be present, \<open>confidence\<close> must satisfy
  \<^verbatim>\<open>ge=0.0, le=1.0\<close>, omitted fields take what their default factory returns
  (\<open>now\<close> is the clock that \<^verbatim>\<open>datetime.now\<close> reads), and the after-validator runs last.
\<close>

definition AnswerResponse_new :: "nat \<Rightarrow> AnswerResponse_kwargs \<Rightarrow> error + AnswerResponse" where
  "AnswerResponse_new now kw =
     (case arg_question kw of
        None \<Rightarrow> Inl (ValidationError ''question: field required'')
      | Some q \<Rightarrow>
     (case arg_answer kw of
        None \<Rightarrow> Inl (ValidationError ''answer: field required'')
      | Some a \<Rightarrow>
     (case arg_confidence kw of
        None \<Rightarrow> Inl (ValidationError ''confidence: field required'')
      | Some c \<Rightarrow>
          if c < 0 then Inl (ValidationError ''confidence: greater_than_equal'')
          else if 1 < c then Inl (ValidationError ''confidence: less_than_equal'')
          else validate_sources_with_confidence
            \<lparr>question = q, answer = a,
             sources = (case arg_sources kw of None \<Rightarrow> ListClass | Some xs \<Rightarrow> StrList xs),
             confidence = c,
             timestamp = (case arg_timestamp kw of None \<Rightarrow> now | Some t \<Rightarrow> t)\<rparr>)))"

datatype SummarizationResponse =
  SummarizationResponse int string "string list" py_list_field nat

datatype CalculationResponse =
  CalculationResponse string real string "string option" nat

record UpdateMemoryResponse =
  summary :: string
  document_ids :: py_list_field

text \<open>The four values of \<^verbatim>\<open>Literal["qa", "summarization", "calculation", "unknown"]\<close>
  and the strings they are.\<close>

datatype intent_literal = Lit_qa | Lit_summarization | Lit_calculation | Lit_unknown

fun literal_str :: "intent_literal \<Rightarrow> string" where
  "literal_str Lit_qa = ''qa''"
| "literal_str Lit_summarization = ''summarization''"
| "literal_str Lit_calculation = ''calculation''"
| "literal_str Lit_unknown = ''unknown''"

record UserIntent =
  intent_type :: intent_literal
  confidence :: real
  reasoning :: string

section \<open>Conversation state (agent.py)\<close>

text \<open>
  Conversation messages. Every stored message has an id: the \<^verbatim>\<open>add_messages\<close> reducer
  gives one to each message that arrives without. \<open>msg_name\<close> is the tool's name on a
  tool message.
\<close>

datatype message_type = SystemMessage | HumanMessage | AIMessage | ToolMessage

record BaseMessage =
  msg_id :: string
  msg_type :: message_type
  msg_content :: string
  msg_name :: "string option"

datatype structured =
    Answer AnswerResponse
  | Summary SummarizationResponse
  | Calculated CalculationResponse

text \<open>The dictionary the tool-augmented agent returns; \<open>None\<close> is a key it lacks.\<close>

record agent_result =
  result_messages :: "BaseMessage list option"
  structured_response :: "structured option"

text \<open>
  \<^verbatim>\<open>AgentState\<close> is a dictionary with a fixed set of keys. Each field of the record is
  one key, \<open>None\<close> when the dictionary lacks it; a key typed \<^verbatim>\<open>Optional[...]\<close> holds an
  option of its own. The nodes return values of the same type: the keys they set.
\<close>

record AgentState =
  user_input :: "string option option"
  messages :: "BaseMessage list option"
  intent :: "UserIntent option option"
  next_step :: "string option"
  conversation_summary :: "string option"
  active_documents :: "py_list_field option option"
  current_response :: "agent_result option option"
  tools_used :: "string option list option"
  session_id :: "string option option"
  user_id :: "string option option"
  actions_taken :: "string list option"

text \<open>The dictionary with no key.\<close>

definition no_keys :: AgentState where
  "no_keys =
     \<lparr>user_input = None, messages = None, intent = None, next_step = None,
      conversation_summary = None, active_documents = None, current_response = None,
      tools_used = None, session_id = None, user_id = None, actions_taken = None\<rparr>"

text \<open>\<^verbatim>\<open>d.get(key, default)\<close>.\<close>

definition get_default :: "'a option \<Rightarrow> 'a \<Rightarrow> 'a" where
  "get_default v d = (case v of None \<Rightarrow> d | Some x \<Rightarrow> x)"

subsection \<open>The reducers the annotations of the state name\<close>

text \<open>
  \<^verbatim>\<open>messages: Annotated[List[BaseMessage], add_messages]\<close>. The reducer of the graph
  library merges by id: going through the incoming messages in order, one whose id is
  already in the merged list replaces the message at that index, any other is appended
  and its index recorded. \<open>index_by_id\<close> is the dictionary from id to index that the
  reducer builds from the stored list first (a later index wins). The library's deletion
  marker (\<^verbatim>\<open>RemoveMessage\<close>), which no file of this repository constructs, is not among
  the message types.
\<close>

fun index_by_id :: "nat \<Rightarrow> BaseMessage list \<Rightarrow> (string \<rightharpoonup> nat) \<Rightarrow> (string \<rightharpoonup> nat)" where
  "index_by_id i [] d = d"
| "index_by_id i (m # ms) d = index_by_id (Suc i) ms (d(msg_id m \<mapsto> i))"

fun merge_messages ::
  "BaseMessage list \<Rightarrow> (string \<rightharpoonup> nat) \<Rightarrow> BaseMessage list \<Rightarrow> BaseMessage list" where
  "merge_messages merged d [] = merged"
| "merge_messages merged d (m # ms) =
     (case d (msg_id m) of
        Some i \<Rightarrow> merge_messages (merged[i := m]) d ms
      | None \<Rightarrow> merge_messages (merged @ [m]) (d(msg_id m \<mapsto> length merged)) ms)"

definition add_messages :: "BaseMessage list \<Rightarrow> BaseMessage list \<Rightarrow> BaseMessage list" where
  "add_messages left right = merge_messages left (index_by_id 0 left Map.empty) right"

text \<open>A key without a reducer keeps the last value written to it.\<close>

definition last_value :: "'a option \<Rightarrow> 'a option \<Rightarrow> 'a option" where
  "last_value old new = (case new of None \<Rightarrow> old | Some v \<Rightarrow> Some v)"

text \<open>
  Writing a node's return value (or a turn's input) into the state: a key the update
  lacks is left alone; \<open>messages\<close> goes through \<open>add_messages\<close> and \<open>actions_taken\<close>
  through \<^verbatim>\<open>operator.add\<close>, both starting from the empty list; every other key is
  overwritten.
\<close>

definition apply_update :: "AgentState \<Rightarrow> AgentState \<Rightarrow> AgentState" where
  "apply_update state upd =
     \<lparr>user_input = last_value (user_input state) (user_input upd),
      messages =
        (case messages upd of
           None \<Rightarrow> messages state
         | Some new \<Rightarrow> Some (add_messages (get_default (messages state) []) new)),
      intent = last_value (intent state) (intent upd),
      next_step = last_value (next_step state) (next_step upd),
      conversation_summary =
        last_value (conversation_summary state) (conversation_summary upd),
      active_documents = last_value (active_documents state) (active_documents upd),
      current_response = last_value (current_response state) (current_response upd),
      tools_used = last_value (tools_used state) (tools_used upd),
      session_id = last_value (session_id state) (session_id upd),
      user_id = last_value (user_id state) (user_id upd),
      actions_taken =
        (case actions_taken upd of
           None \<Rightarrow> actions_taken state
         | Some new \<Rightarrow> Some (get_default (actions_taken state) [] @ new))\<rparr>"

section \<open>The nodes (agent.py)\<close>

text \<open>The \<^verbatim>\<open>response_schema\<close> argument of \<^verbatim>\<open>invoke_react_agent\<close>: one of the three
  response classes.\<close>

datatype response_schema =
  AnswerResponse_cls | SummarizationResponse_cls | CalculationResponse_cls

text \<open>
  What the nodes call and this repository's files do not define: the language model
  read from \<^verbatim>\<open>config["configurable"]\<close> (asked for a \<^verbatim>\<open>UserIntent\<close>, asked for an
  \<^verbatim>\<open>UpdateMemoryResponse\<close>, and run as a tool-calling agent with a response format) and
  the prompt templates of the \<^verbatim>\<open>prompts\<close> module. Each is a function of what the node
  passes to it; a call that raises returns \<open>Inl\<close>.
\<close>

record collaborators =
  llm_user_intent :: "string \<Rightarrow> error + UserIntent"
  llm_update_memory :: "BaseMessage list \<Rightarrow> error + UpdateMemoryResponse"
  react_agent :: "response_schema \<Rightarrow> BaseMessage list \<Rightarrow> error + agent_result"
  intent_classification_prompt :: "string option \<Rightarrow> BaseMessage list \<Rightarrow> string"
  chat_prompt_template :: "string \<Rightarrow> string option \<Rightarrow> BaseMessage list \<Rightarrow> BaseMessage list"
  memory_summary_prompt :: "BaseMessage list \<Rightarrow> BaseMessage list"

definition invoke_react_agent ::
  "collaborators \<Rightarrow> response_schema \<Rightarrow> BaseMessage list
     \<Rightarrow> error + (agent_result \<times> string option list)" where
  "invoke_react_agent cfg schema msgs =
     (case react_agent cfg schema msgs of
        Inl e \<Rightarrow> Inl e
      | Inr result \<Rightarrow>
          Inr (result,
               map msg_name
                 (filter (\<lambda>t. msg_type t = ToolMessage)
                    (get_default (result_messages result) []))))"

definition classify_intent :: "collaborators \<Rightarrow> AgentState \<Rightarrow> error + AgentState" where
  "classify_intent cfg state =
     (case user_input state of
        None \<Rightarrow> Inl (KeyError ''user_input'')
      | Some ui \<Rightarrow>
          (case llm_user_intent cfg
                  (intent_classification_prompt cfg ui (get_default (messages state) [])) of
             Inl e \<Rightarrow> Inl e
           | Inr response \<Rightarrow>
               Inr (no_keys
                 \<lparr>actions_taken := Some [''classify_intent''],
                  intent := Some (Some response),
                  next_step := Some (literal_str (intent_type response))\<rparr>)))"

text \<open>The three task handlers differ in the template and the response class only; this
  is their common body.\<close>

definition task_agent ::
  "string \<Rightarrow> response_schema \<Rightarrow> string \<Rightarrow> collaborators \<Rightarrow> AgentState \<Rightarrow> error + AgentState" where
  "task_agent template schema action cfg state =
     (case user_input state of
        None \<Rightarrow> Inl (KeyError ''user_input'')
      | Some ui \<Rightarrow>
          (case invoke_react_agent cfg schema
                  (chat_prompt_template cfg template ui (get_default (messages state) [])) of
             Inl e \<Rightarrow> Inl e
           | Inr (result, used) \<Rightarrow>
               Inr (no_keys
                 \<lparr>messages := Some (get_default (result_messages result) []),
                  actions_taken := Some [action],
                  current_response := Some (Some result),
                  tools_used := Some used,
                  next_step := Some ''update_memory''\<rparr>)))"

definition qa_agent :: "collaborators \<Rightarrow> AgentState \<Rightarrow> error + AgentState" where
  "qa_agent = task_agent ''qa'' AnswerResponse_cls ''qa_agent''"

definition summarization_agent :: "collaborators \<Rightarrow> AgentState \<Rightarrow> error + AgentState" where
  "summarization_agent =
     task_agent ''summarization'' SummarizationResponse_cls ''summarization_agent''"

definition calculation_agent :: "collaborators \<Rightarrow> AgentState \<Rightarrow> error + AgentState" where
  "calculation_agent =
     task_agent ''calculation'' CalculationResponse_cls ''calculation_agent''"

definition update_memory :: "collaborators \<Rightarrow> AgentState \<Rightarrow> error + AgentState" where
  "update_memory cfg state =
     (case llm_update_memory cfg
             (memory_summary_prompt cfg (get_default (messages state) [])) of
        Inl e \<Rightarrow> Inl e
      | Inr response \<Rightarrow>
          Inr (no_keys
            \<lparr>conversation_summary := Some (summary response),
             active_documents := Some (Some (document_ids response)),
             actions_taken := Some [''update_memory''],
             next_step := Some ''end''\<rparr>))"

definition should_continue :: "AgentState \<Rightarrow> string" where
  "should_continue state = get_default (next_step state) ''end''"

section \<open>The workflow graph (create_workflow)\<close>

definition END :: string where
  "END = ''__end__''"

record StateGraph =
  nodes :: "(string \<times> (collaborators \<Rightarrow> AgentState \<Rightarrow> error + AgentState)) list"
  entry_point :: string
  conditional_edges :: "(string \<times> (AgentState \<Rightarrow> string) \<times> (string \<times> string) list) list"
  edges :: "(string \<times> string) list"

definition create_workflow :: StateGraph where
  "create_workflow =
     \<lparr>nodes =
        [(''classify_intent'', classify_intent),
         (''qa_agent'', qa_agent),
         (''summarization_agent'', summarization_agent),
         (''calculation_agent'', calculation_agent),
         (''update_memory'', update_memory)],
      entry_point = ''classify_intent'',
      conditional_edges =
        [(''classify_intent'', should_continue,
          [(''qa'', ''qa_agent''),
           (''summarization'', ''summarization_agent''),
           (''calculation'', ''calculation_agent''),
           (''end'', END)])],
      edges =
        [(''qa_agent'', ''update_memory''),
         (''summarization_agent'', ''update_memory''),
         (''calculation_agent'', ''update_memory''),
         (''update_memory'', END)]\<rparr>"

text \<open>All the nodes an edge leads to from \<open>n\<close>.\<close>

definition successors :: "StateGraph \<Rightarrow> string \<Rightarrow> string list" where
  "successors g n = map snd (filter (\<lambda>e. fst e = n) (edges g))"

text \<open>
  Where the graph goes after node \<open>n\<close> has written its update, \<open>state\<close> being the state
  with that update applied. A conditional edge calls its router and looks the result up
  in its mapping, a dictionary: a result that is not a key raises \<^verbatim>\<open>KeyError\<close>.
  Otherwise the fixed edge is followed; a node without one ends the run.
\<close>

definition next_node :: "StateGraph \<Rightarrow> string \<Rightarrow> AgentState \<Rightarrow> error + string" where
  "next_node g n state =
     (case map_of (conditional_edges g) n of
        Some (path, path_map) \<Rightarrow>
          (case map_of path_map (path state) of
             None \<Rightarrow> Inl (KeyError (path state))
           | Some dest \<Rightarrow> Inr dest)
      | None \<Rightarrow>
          (case successors g n of
             [] \<Rightarrow> Inr END
           | dest # _ \<Rightarrow> Inr dest))"

text \<open>
  How a run ends: at \<open>END\<close> with the final state, or with the exception a step raised
  and the state as the checkpointer last saved it (the state before the failed step:
  the writes of a step that raises, in the node or in its conditional edge, are dropped).
\<close>

datatype turn_result = Finished AgentState | Failed error AgentState

text \<open>
  The compiled graph, run from node \<open>n\<close>. Each node execution is one step; the first
  argument is the number of steps the run may still take (the runtime's recursion
  limit), and a run that needs more raises \<open>GraphRecursionError\<close>.
\<close>

fun run_from :: "collaborators \<Rightarrow> StateGraph \<Rightarrow> nat \<Rightarrow> string \<Rightarrow> AgentState \<Rightarrow> turn_result" where
  "run_from cfg g 0 n state =
     (if n = END then Finished state else Failed GraphRecursionError state)"
| "run_from cfg g (Suc k) n state =
     (if n = END then Finished state
      else case map_of (nodes g) n of
        None \<Rightarrow> Failed (KeyError n) state
      | Some node \<Rightarrow>
          (case node cfg state of
             Inl e \<Rightarrow> Failed e state
           | Inr upd \<Rightarrow>
               (case next_node g n (apply_update state upd) of
                  Inl e \<Rightarrow> Failed e state
                | Inr dest \<Rightarrow> run_from cfg g k dest (apply_update state upd))))"

text \<open>
  One turn. The graph is compiled with a checkpointer
  (\<^verbatim>\<open>workflow.compile(checkpointer=InMemorySaver())\<close>), so a session's state is kept
  from one turn to the next: the caller's input is written into the saved state (through
  the same reducers as a node's update) and the graph runs from its entry point.
\<close>

definition invoke :: "collaborators \<Rightarrow> nat \<Rightarrow> AgentState \<Rightarrow> AgentState \<Rightarrow> turn_result" where
  "invoke cfg recursion_limit inp saved =
     run_from cfg create_workflow recursion_limit (entry_point create_workflow)
       (apply_update saved inp)"

text \<open>The state a run leaves behind for the session's next turn.\<close>

fun result_state :: "turn_result \<Rightarrow> AgentState" where
  "result_state (Finished s) = s"
| "result_state (Failed e s) = s"


text \<open>The state of a session before its first turn: the two keys with a reducer hold
  the empty list, every other key is missing.\<close>

definition new_session :: AgentState where
  "new_session = no_keys\<lparr>messages := Some [], actions_taken := Some []\<rparr>"


text \<open>Whether a turn reached \<open>END\<close>.\<close>

fun finished :: "turn_result \<Rightarrow> bool" where
  "finished (Finished s) = True"
| "finished (Failed e s) = False"


text \<open>The history of a state, as the nodes read it.\<close>

definition history :: "AgentState \<Rightarrow> BaseMessage list" where
  "history state = get_default (messages state) []"

section \<open>A concrete conversation\<close>

text \<open>
  The collaborators of a scripted conversation: the classifier always answers with the
  intent \<open>lit\<close>, the tool-calling agent is \<open>agent\<close>, the consolidator always returns the
  same summary, and the templates put a system message before the history and the
  user's text after it.
\<close>

definition system_message :: BaseMessage where
  "system_message =
     \<lparr>msg_id = ''sys'', msg_type = SystemMessage, msg_content = ''You are a helpful assistant.'',
      msg_name = None\<rparr>"

definition human_message :: "string \<Rightarrow> BaseMessage" where
  "human_message txt =
     \<lparr>msg_id = ''human:'' @ txt, msg_type = HumanMessage, msg_content = txt, msg_name = None\<rparr>"

definition scripted :: "intent_literal \<Rightarrow> (response_schema \<Rightarrow> BaseMessage list \<Rightarrow> error + agent_result) \<Rightarrow> collaborators" where
  "scripted lit agent =
     \<lparr>llm_user_intent = (\<lambda>prompt. Inr \<lparr>intent_type = lit, confidence = 1, reasoning = prompt\<rparr>),
      llm_update_memory =
        (\<lambda>history. Inr \<lparr>summary = ''The user asked about the capital of France.'',
                         document_ids = StrList []\<rparr>),
      react_agent = agent,
      intent_classification_prompt = (\<lambda>ui history. get_default ui ''None''),
      chat_prompt_template =
        (\<lambda>kind ui history. system_message # history @ [human_message (get_default ui ''None'')]),
      memory_summary_prompt = (\<lambda>history. system_message # history)\<rparr>"

text \<open>An agent that answers "Paris" after one tool call, one that raises, and one that
  returns the system message with other words under the same id.\<close>

definition paris_answer :: AnswerResponse where
  "paris_answer =
     \<lparr>question = ''What is the capital of France?'', answer = ''Paris'',
      sources = StrList [''encyclopedia''], confidence = 1, timestamp = 0\<rparr>"

definition paris_agent :: "response_schema \<Rightarrow> BaseMessage list \<Rightarrow> error + agent_result" where
  "paris_agent schema msgs =
     Inr \<lparr>result_messages =
            Some (msgs @
              [\<lparr>msg_id = ''tool-1'', msg_type = ToolMessage, msg_content = ''France: Paris'',
                msg_name = Some ''document_search''\<rparr>,
               \<lparr>msg_id = ''ai-1'', msg_type = AIMessage, msg_content = ''Paris'',
                msg_name = None\<rparr>]),
          structured_response = Some (Answer paris_answer)\<rparr>"

definition failing_agent :: "response_schema \<Rightarrow> BaseMessage list \<Rightarrow> error + agent_result" where
  "failing_agent schema msgs = Inl (ValidationError ''AnswerResponse'')"


definition paris_input :: AgentState where
  "paris_input = no_keys\<lparr>user_input := Some (Some ''What is the capital of France?'')\<rparr>"

text \<open>A session that already has a summary and a document, and the update the
  classifier of the scripted conversation returns for the intent \<open>qa\<close>.\<close>

definition summarised_session :: AgentState where
  "summarised_session =
     new_session\<lparr>conversation_summary := Some ''old summary'',
                 active_documents := Some (Some (StrList [''d1'']))\<rparr>"

definition qa_classified :: AgentState where
  "qa_classified =
     no_keys\<lparr>actions_taken := Some [''classify_intent''],
             intent := Some (Some \<lparr>intent_type = Lit_qa, confidence = 1,
                                   reasoning = ''What is the capital of France?''\<rparr>),
             next_step := Some ''qa''\<rparr>"

text \<open>The scripted question-answering turn.\<close>

definition paris_turn :: "AgentState \<Rightarrow> turn_result" where
  "paris_turn saved = invoke (scripted Lit_qa paris_agent) 25 paris_input saved"



section \<open>Construction of an answer\<close>

lemma empty_sources_rejected:
  assumes "arg_sources kw = Some []" and "arg_confidence kw = Some c" and "float_0_7 \<le> c"
  shows "\<exists>e. AnswerResponse_new now kw = Inl e"
  using assms
  by (simp add: AnswerResponse_new_def validate_sources_with_confidence_def
        split: option.splits)

lemma listed_sources_nonempty:
  assumes "AnswerResponse_new now kw = Inr r" and "float_0_7 \<le> AnswerResponse.confidence r"
    and "arg_sources kw = Some xs"
  shows "sources r = StrList xs \<and> xs \<noteq> []"
  using assms
  by (auto simp: AnswerResponse_new_def validate_sources_with_confidence_def
        split: option.splits if_splits)

lemma low_confidence_accepted:
  assumes "arg_question kw = Some q" and "arg_answer kw = Some a"
    and "arg_confidence kw = Some c" and "0 \<le> c" and "c < float_0_7"
  shows "\<exists>r. AnswerResponse_new now kw = Inr r"
  using assms
  by (simp add: AnswerResponse_new_def validate_sources_with_confidence_def float_0_7_def
        split: option.splits)

text \<open>
  Claim C2. A construction with confidence at least 0.7 and the explicit empty list of
  sources is rejected (\<open>empty_sources_rejected\<close>), but not every constructed answer of
  high confidence has a source: with \<open>sources\<close> left out and confidence 0.9 the
  construction succeeds, the field holds the class \<^verbatim>\<open>list\<close>, and the answer has no
  source at all.
\<close>

theorem high_confidence_without_sources_is_constructed:
  "AnswerResponse_new 0
     \<lparr>arg_question = Some ''q'', arg_answer = Some ''a'', arg_sources = None,
      arg_confidence = Some float_0_9, arg_timestamp = None\<rparr>
   = Inr \<lparr>question = ''q'', answer = ''a'', sources = ListClass,
          confidence = float_0_9, timestamp = 0\<rparr>
   \<and> float_0_7 \<le> float_0_9
   \<and> source_count ListClass = None"
  by (simp add: AnswerResponse_new_def validate_sources_with_confidence_def
        float_0_7_def float_0_9_def)

text \<open>
  Claim C10. Below 0.7 a construction without \<open>sources\<close> succeeds
  (\<open>low_confidence_accepted\<close>) and at exactly 0.7 the explicit empty list is rejected,
  but the omitted field does not default to the empty list: it holds the class
  \<^verbatim>\<open>list\<close>, so at 0.7 a construction without \<open>sources\<close> is accepted as well.
\<close>

theorem omitted_sources_default_is_not_the_empty_list:
  "AnswerResponse_new 0
     \<lparr>arg_question = Some ''q'', arg_answer = Some ''a'', arg_sources = None,
      arg_confidence = Some (1 / 2), arg_timestamp = None\<rparr>
   = Inr \<lparr>question = ''q'', answer = ''a'', sources = ListClass,
          confidence = 1 / 2, timestamp = 0\<rparr>
   \<and> ListClass \<noteq> StrList []
   \<and> AnswerResponse_new 0
     \<lparr>arg_question = Some ''q'', arg_answer = Some ''a'', arg_sources = None,
      arg_confidence = Some float_0_7, arg_timestamp = None\<rparr>
   = Inr \<lparr>question = ''q'', answer = ''a'', sources = ListClass,
          confidence = float_0_7, timestamp = 0\<rparr>
   \<and> AnswerResponse_new 0
     \<lparr>arg_question = Some ''q'', arg_answer = Some ''a'', arg_sources = Some [],
      arg_confidence = Some float_0_7, arg_timestamp = None\<rparr>
   = Inl (ValueError ''Sources cannot be empty when confidence is high'')"
  by (simp add: AnswerResponse_new_def validate_sources_with_confidence_def float_0_7_def)

section \<open>The nodes and the edges\<close>

subsection \<open>What each node returns\<close>

lemma classify_intent_Inr:
  assumes "classify_intent cfg state = Inr upd"
  obtains ui response where "user_input state = Some ui"
    and "llm_user_intent cfg
           (intent_classification_prompt cfg ui (get_default (messages state) [])) = Inr response"
    and "upd = no_keys\<lparr>actions_taken := Some [''classify_intent''],
                        intent := Some (Some response),
                        next_step := Some (literal_str (intent_type response))\<rparr>"
  using assms by (auto simp: classify_intent_def split: option.splits sum.splits)

lemma task_agent_Inr:
  assumes "task_agent template schema action cfg state = Inr upd"
  obtains ui result where "user_input state = Some ui"
    and "react_agent cfg schema
           (chat_prompt_template cfg template ui (get_default (messages state) [])) = Inr result"
    and "upd = no_keys\<lparr>messages := Some (get_default (result_messages result) []),
                        actions_taken := Some [action],
                        current_response := Some (Some result),
                        tools_used := Some (map msg_name (filter (\<lambda>t. msg_type t = ToolMessage)
                            (get_default (result_messages result) []))),
                        next_step := Some ''update_memory''\<rparr>"
  using assms
  by (auto simp: task_agent_def invoke_react_agent_def split: option.splits sum.splits)

lemma update_memory_Inr:
  assumes "update_memory cfg state = Inr upd"
  obtains response where
    "llm_update_memory cfg (memory_summary_prompt cfg (get_default (messages state) [])) = Inr response"
    and "upd = no_keys\<lparr>conversation_summary := Some (summary response),
                        active_documents := Some (Some (document_ids response)),
                        actions_taken := Some [''update_memory''],
                        next_step := Some ''end''\<rparr>"
  using assms by (auto simp: update_memory_def split: sum.splits)

subsection \<open>The edges of the workflow\<close>

lemma node_lookup:
  "map_of (nodes create_workflow) ''classify_intent'' = Some classify_intent"
  "map_of (nodes create_workflow) ''qa_agent'' = Some qa_agent"
  "map_of (nodes create_workflow) ''summarization_agent'' = Some summarization_agent"
  "map_of (nodes create_workflow) ''calculation_agent'' = Some calculation_agent"
  "map_of (nodes create_workflow) ''update_memory'' = Some update_memory"
  by (simp_all add: create_workflow_def)

lemma next_node_classify_intent:
  "next_node create_workflow ''classify_intent'' state =
     (if should_continue state = ''qa'' then Inr ''qa_agent''
      else if should_continue state = ''summarization'' then Inr ''summarization_agent''
      else if should_continue state = ''calculation'' then Inr ''calculation_agent''
      else if should_continue state = ''end'' then Inr END
      else Inl (KeyError (should_continue state)))"
  by (simp add: next_node_def create_workflow_def)

lemma next_node_task:
  "next_node create_workflow ''qa_agent'' state = Inr ''update_memory''"
  "next_node create_workflow ''summarization_agent'' state = Inr ''update_memory''"
  "next_node create_workflow ''calculation_agent'' state = Inr ''update_memory''"
  "next_node create_workflow ''update_memory'' state = Inr END"
  by (simp_all add: next_node_def successors_def create_workflow_def)

lemma not_END:
  "''classify_intent'' \<noteq> END" "''qa_agent'' \<noteq> END" "''summarization_agent'' \<noteq> END"
  "''calculation_agent'' \<noteq> END" "''update_memory'' \<noteq> END"
  by (simp_all add: END_def)

lemma run_from_END: "run_from cfg g limit END state = Finished state"
  by (cases limit) simp_all

lemma run_update_memory:
  "run_from cfg create_workflow (Suc k) ''update_memory'' state =
     (case update_memory cfg state of
        Inl e \<Rightarrow> Failed e state
      | Inr upd \<Rightarrow> Finished (apply_update state upd))"
  by (simp add: not_END node_lookup next_node_task run_from_END split: sum.splits)

lemma run_task:
  assumes "(n, node) \<in> {(''qa_agent'', qa_agent), (''summarization_agent'', summarization_agent),
                         (''calculation_agent'', calculation_agent)}"
  shows "run_from cfg create_workflow (Suc k) n state =
     (case node cfg state of
        Inl e \<Rightarrow> Failed e state
      | Inr upd \<Rightarrow> run_from cfg create_workflow k ''update_memory'' (apply_update state upd))"
  using assms by (auto simp: not_END node_lookup next_node_task split: sum.splits)

lemma run_classify_intent:
  "run_from cfg create_workflow (Suc k) ''classify_intent'' state =
     (case classify_intent cfg state of
        Inl e \<Rightarrow> Failed e state
      | Inr upd \<Rightarrow>
          (case next_node create_workflow ''classify_intent'' (apply_update state upd) of
             Inl e \<Rightarrow> Failed e state
           | Inr dest \<Rightarrow> run_from cfg create_workflow k dest (apply_update state upd)))"
  by (simp add: not_END node_lookup split: sum.splits)

text \<open>From here on a run is unfolded one node at a time, by the three lemmas above.\<close>

declare run_from.simps [simp del]

lemma should_continue_after_classify:
  assumes "classify_intent cfg state = Inr upd"
  shows "\<exists>r. intent upd = Some (Some r) \<and> next_step upd = Some (literal_str (intent_type r)) \<and>
     should_continue (apply_update state upd) = literal_str (intent_type r)"
  using assms
  by (auto elim!: classify_intent_Inr
      simp: should_continue_def apply_update_def last_value_def get_default_def no_keys_def)

subsection \<open>Reading a state after an update\<close>

lemma apply_update_fields:
  "actions_taken (apply_update state upd) =
     (case actions_taken upd of None \<Rightarrow> actions_taken state
      | Some new \<Rightarrow> Some (get_default (actions_taken state) [] @ new))"
  "messages (apply_update state upd) =
     (case messages upd of None \<Rightarrow> messages state
      | Some new \<Rightarrow> Some (add_messages (get_default (messages state) []) new))"
  "intent (apply_update state upd) = last_value (intent state) (intent upd)"
  "next_step (apply_update state upd) = last_value (next_step state) (next_step upd)"
  "conversation_summary (apply_update state upd) =
     last_value (conversation_summary state) (conversation_summary upd)"
  "active_documents (apply_update state upd) =
     last_value (active_documents state) (active_documents upd)"
  by (simp_all add: apply_update_def)

lemma last_value_simps:
  "last_value old None = old" "last_value old (Some v) = Some v"
  by (simp_all add: last_value_def)

lemma get_default_simps:
  "get_default None d = d" "get_default (Some x) d = x"
  by (simp_all add: get_default_def)

lemma no_keys_fields:
  "user_input no_keys = None" "messages no_keys = None" "intent no_keys = None"
  "next_step no_keys = None" "conversation_summary no_keys = None"
  "active_documents no_keys = None" "current_response no_keys = None"
  "tools_used no_keys = None" "session_id no_keys = None" "user_id no_keys = None"
  "actions_taken no_keys = None"
  by (simp_all add: no_keys_def)

section \<open>The classifier and the consolidator\<close>

text \<open>
  Claim C5. Whenever \<open>classify_intent\<close> returns, the language model returned a
  \<open>UserIntent\<close> for the prompt built from the user's input and the history, and the
  update consists of exactly three keys: \<open>actions_taken\<close> with the single entry
  \<open>classify_intent\<close> (so the state's trail grows by exactly that entry), \<open>intent\<close>
  with that \<open>UserIntent\<close>, and \<open>next_step\<close> with the string of its \<open>intent_type\<close>.
\<close>

theorem classify_intent_sets_intent_and_next_step:
  assumes "classify_intent cfg state = Inr upd"
  shows "\<exists>ui response.
     user_input state = Some ui
     \<and> llm_user_intent cfg
          (intent_classification_prompt cfg ui (get_default (messages state) [])) = Inr response
     \<and> upd = no_keys\<lparr>actions_taken := Some [''classify_intent''],
                      intent := Some (Some response),
                      next_step := Some (literal_str (intent_type response))\<rparr>
     \<and> actions_taken (apply_update state upd) =
          Some (get_default (actions_taken state) [] @ [''classify_intent''])
     \<and> intent (apply_update state upd) = Some (Some response)
     \<and> next_step (apply_update state upd) = Some (literal_str (intent_type response))"
proof -
  from assms obtain ui response where ui: "user_input state = Some ui"
    and llm: "llm_user_intent cfg
           (intent_classification_prompt cfg ui (get_default (messages state) [])) = Inr response"
    and upd: "upd = no_keys\<lparr>actions_taken := Some [''classify_intent''],
                        intent := Some (Some response),
                        next_step := Some (literal_str (intent_type response))\<rparr>"
    by (rule classify_intent_Inr)
  have "actions_taken (apply_update state upd) =
          Some (get_default (actions_taken state) [] @ [''classify_intent''])"
    and "intent (apply_update state upd) = Some (Some response)"
    and "next_step (apply_update state upd) = Some (literal_str (intent_type response))"
    by (simp_all add: upd apply_update_fields last_value_simps)
  with ui llm upd show ?thesis by blast
qed

theorem classify_intent_sets_intent_and_next_step_witness:
  "classify_intent (scripted Lit_qa paris_agent) (apply_update new_session paris_input)
     = Inr (no_keys\<lparr>actions_taken := Some [''classify_intent''],
              intent := Some (Some \<lparr>intent_type = Lit_qa, confidence = 1,
                                    reasoning = ''What is the capital of France?''\<rparr>),
              next_step := Some ''qa''\<rparr>)
   \<and> actions_taken (apply_update (apply_update new_session paris_input)
        (no_keys\<lparr>actions_taken := Some [''classify_intent''],
              intent := Some (Some \<lparr>intent_type = Lit_qa, confidence = 1,
                                    reasoning = ''What is the capital of France?''\<rparr>),
              next_step := Some ''qa''\<rparr>)) = Some [''classify_intent'']
   \<and> next_step (apply_update (apply_update new_session paris_input)
        (no_keys\<lparr>actions_taken := Some [''classify_intent''],
              intent := Some (Some \<lparr>intent_type = Lit_qa, confidence = 1,
                                    reasoning = ''What is the capital of France?''\<rparr>),
              next_step := Some ''qa''\<rparr>)) = Some ''qa''"
proof -
  have run: "classify_intent (scripted Lit_qa paris_agent) (apply_update new_session paris_input)
     = Inr (no_keys\<lparr>actions_taken := Some [''classify_intent''],
              intent := Some (Some \<lparr>intent_type = Lit_qa, confidence = 1,
                                    reasoning = ''What is the capital of France?''\<rparr>),
              next_step := Some ''qa''\<rparr>)"
    by (simp add: classify_intent_def scripted_def apply_update_def new_session_def
          paris_input_def no_keys_def last_value_def get_default_def)
  from classify_intent_sets_intent_and_next_step [OF run] run show ?thesis
    by (auto simp: apply_update_fields no_keys_fields new_session_def paris_input_def
          last_value_simps get_default_simps)
qed

text \<open>
  Claim C7. Whenever \<open>update_memory\<close> returns, the language model returned an
  \<open>UpdateMemoryResponse\<close> for the history, and the update overwrites
  \<open>conversation_summary\<close> with its summary and \<open>active_documents\<close> with its
  \<open>document_ids\<close>, appends exactly \<open>update_memory\<close> to \<open>actions_taken\<close> and sets
  \<open>next_step\<close> to \<open>end\<close>.
\<close>

theorem update_memory_overwrites_memory:
  assumes "update_memory cfg state = Inr upd"
  shows "\<exists>response.
     llm_update_memory cfg (memory_summary_prompt cfg (get_default (messages state) []))
        = Inr response
     \<and> upd = no_keys\<lparr>conversation_summary := Some (summary response),
                      active_documents := Some (Some (document_ids response)),
                      actions_taken := Some [''update_memory''],
                      next_step := Some ''end''\<rparr>
     \<and> conversation_summary (apply_update state upd) = Some (summary response)
     \<and> active_documents (apply_update state upd) = Some (Some (document_ids response))
     \<and> actions_taken (apply_update state upd) =
          Some (get_default (actions_taken state) [] @ [''update_memory''])
     \<and> next_step (apply_update state upd) = Some ''end''"
proof -
  from assms obtain response where
    llm: "llm_update_memory cfg (memory_summary_prompt cfg (get_default (messages state) []))
            = Inr response"
    and upd: "upd = no_keys\<lparr>conversation_summary := Some (summary response),
                        active_documents := Some (Some (document_ids response)),
                        actions_taken := Some [''update_memory''],
                        next_step := Some ''end''\<rparr>"
    by (rule update_memory_Inr)
  have "conversation_summary (apply_update state upd) = Some (summary response)"
    and "active_documents (apply_update state upd) = Some (Some (document_ids response))"
    and "actions_taken (apply_update state upd) =
          Some (get_default (actions_taken state) [] @ [''update_memory''])"
    and "next_step (apply_update state upd) = Some ''end''"
    by (simp_all add: upd apply_update_fields last_value_simps)
  with llm upd show ?thesis by blast
qed

theorem update_memory_overwrites_memory_witness:
  "update_memory (scripted Lit_qa paris_agent)
      (new_session\<lparr>conversation_summary := Some ''old summary'',
                   active_documents := Some (Some (StrList [''d1'']))\<rparr>)
     = Inr (no_keys\<lparr>conversation_summary := Some ''The user asked about the capital of France.'',
                     active_documents := Some (Some (StrList [])),
                     actions_taken := Some [''update_memory''],
                     next_step := Some ''end''\<rparr>)
   \<and> conversation_summary (apply_update
        (new_session\<lparr>conversation_summary := Some ''old summary'',
                   active_documents := Some (Some (StrList [''d1'']))\<rparr>)
        (no_keys\<lparr>conversation_summary := Some ''The user asked about the capital of France.'',
                     active_documents := Some (Some (StrList [])),
                     actions_taken := Some [''update_memory''],
                     next_step := Some ''end''\<rparr>))
       = Some ''The user asked about the capital of France.''
   \<and> active_documents (apply_update
        (new_session\<lparr>conversation_summary := Some ''old summary'',
                   active_documents := Some (Some (StrList [''d1'']))\<rparr>)
        (no_keys\<lparr>conversation_summary := Some ''The user asked about the capital of France.'',
                     active_documents := Some (Some (StrList [])),
                     actions_taken := Some [''update_memory''],
                     next_step := Some ''end''\<rparr>))
       = Some (Some (StrList []))"
proof -
  have run: "update_memory (scripted Lit_qa paris_agent)
      (new_session\<lparr>conversation_summary := Some ''old summary'',
                   active_documents := Some (Some (StrList [''d1'']))\<rparr>)
     = Inr (no_keys\<lparr>conversation_summary := Some ''The user asked about the capital of France.'',
                     active_documents := Some (Some (StrList [])),
                     actions_taken := Some [''update_memory''],
                     next_step := Some ''end''\<rparr>)"
    by (simp add: update_memory_def scripted_def)
  from update_memory_overwrites_memory [OF run] run show ?thesis
    by (auto simp: scripted_def)
qed

section \<open>Routing\<close>

lemma task_agent_next_step:
  assumes "task_agent template schema action cfg state = Inr upd"
  shows "next_step upd = Some ''update_memory''"
    and "actions_taken upd = Some [action]"
    and "conversation_summary upd = None"
    and "active_documents upd = None"
    and "intent upd = None"
  using assms by (auto elim!: task_agent_Inr simp: no_keys_fields)

lemma task_edges:
  assumes "n \<in> {''qa_agent'', ''summarization_agent'', ''calculation_agent''}"
  shows "successors create_workflow n = [''update_memory'']"
    and "map_of (conditional_edges create_workflow) n = None"
  using assms by (auto simp: successors_def create_workflow_def)

text \<open>
  Claim C6. Each of the three task handlers is a node of the workflow whose only edge
  leads to \<open>update_memory\<close> and which has no conditional edge; whenever it returns, its
  update sets \<open>next_step\<close> to \<open>update_memory\<close>, the graph goes on to \<open>update_memory\<close>,
  and the run continues there: a handler never ends a turn itself.
\<close>

theorem task_handlers_lead_to_update_memory:
  assumes "(n, node) \<in> {(''qa_agent'', qa_agent),
                         (''summarization_agent'', summarization_agent),
                         (''calculation_agent'', calculation_agent)}"
  shows "map_of (nodes create_workflow) n = Some node
     \<and> successors create_workflow n = [''update_memory'']
     \<and> map_of (conditional_edges create_workflow) n = None
     \<and> (\<forall>cfg state upd k. node cfg state = Inr upd \<longrightarrow>
           next_step upd = Some ''update_memory''
         \<and> next_node create_workflow n (apply_update state upd) = Inr ''update_memory''
         \<and> run_from cfg create_workflow (Suc k) n state =
             run_from cfg create_workflow k ''update_memory'' (apply_update state upd))"
proof -
  have lookup: "map_of (nodes create_workflow) n = Some node"
    using assms by (auto simp: node_lookup)
  have n: "n \<in> {''qa_agent'', ''summarization_agent'', ''calculation_agent''}"
    using assms by auto
  have step: "next_step upd = Some ''update_memory''" if "node cfg state = Inr upd"
    for cfg state upd
    using assms that
    by (auto simp: qa_agent_def summarization_agent_def calculation_agent_def
          dest: task_agent_next_step(1))
  have "next_node create_workflow n state = Inr ''update_memory''" for state
    using n by (auto simp: next_node_task)
  moreover have "run_from cfg create_workflow (Suc k) n state =
      run_from cfg create_workflow k ''update_memory'' (apply_update state upd)"
    if "node cfg state = Inr upd" for cfg state upd k
    by (simp only: run_task [OF assms] that sum.case)
  ultimately show ?thesis using lookup task_edges [OF n] step by blast
qed

theorem task_handlers_lead_to_update_memory_witness:
  "(''qa_agent'', qa_agent) \<in> {(''qa_agent'', qa_agent),
                         (''summarization_agent'', summarization_agent),
                         (''calculation_agent'', calculation_agent)}
   \<and> successors create_workflow ''qa_agent'' = [''update_memory'']
   \<and> qa_agent (scripted Lit_qa paris_agent) (apply_update new_session paris_input) =
       Inr (no_keys\<lparr>messages := Some [system_message,
                 human_message ''What is the capital of France?'',
                 \<lparr>msg_id = ''tool-1'', msg_type = ToolMessage, msg_content = ''France: Paris'',
                  msg_name = Some ''document_search''\<rparr>,
                 \<lparr>msg_id = ''ai-1'', msg_type = AIMessage, msg_content = ''Paris'',
                  msg_name = None\<rparr>],
               actions_taken := Some [''qa_agent''],
               current_response := Some (Some
                 \<lparr>result_messages = Some [system_message,
                    human_message ''What is the capital of France?'',
                    \<lparr>msg_id = ''tool-1'', msg_type = ToolMessage, msg_content = ''France: Paris'',
                     msg_name = Some ''document_search''\<rparr>,
                    \<lparr>msg_id = ''ai-1'', msg_type = AIMessage, msg_content = ''Paris'',
                     msg_name = None\<rparr>],
                  structured_response = Some (Answer paris_answer)\<rparr>),
               tools_used := Some [Some ''document_search''],
               next_step := Some ''update_memory''\<rparr>)"
proof -
  have mem: "(''qa_agent'', qa_agent) \<in> {(''qa_agent'', qa_agent),
                         (''summarization_agent'', summarization_agent),
                         (''calculation_agent'', calculation_agent)}"
    by simp
  have run: "qa_agent (scripted Lit_qa paris_agent) (apply_update new_session paris_input) =
       Inr (no_keys\<lparr>messages := Some [system_message,
                 human_message ''What is the capital of France?'',
                 \<lparr>msg_id = ''tool-1'', msg_type = ToolMessage, msg_content = ''France: Paris'',
                  msg_name = Some ''document_search''\<rparr>,
                 \<lparr>msg_id = ''ai-1'', msg_type = AIMessage, msg_content = ''Paris'',
                  msg_name = None\<rparr>],
               actions_taken := Some [''qa_agent''],
               current_response := Some (Some
                 \<lparr>result_messages = Some [system_message,
                    human_message ''What is the capital of France?'',
                    \<lparr>msg_id = ''tool-1'', msg_type = ToolMessage, msg_content = ''France: Paris'',
                     msg_name = Some ''document_search''\<rparr>,
                    \<lparr>msg_id = ''ai-1'', msg_type = AIMessage, msg_content = ''Paris'',
                     msg_name = None\<rparr>],
                  structured_response = Some (Answer paris_answer)\<rparr>),
               tools_used := Some [Some ''document_search''],
               next_step := Some ''update_memory''\<rparr>)"
    by (simp add: qa_agent_def task_agent_def invoke_react_agent_def scripted_def paris_agent_def
          apply_update_def new_session_def paris_input_def no_keys_def last_value_def
          get_default_def system_message_def human_message_def)
  from task_handlers_lead_to_update_memory [OF mem] have
    "successors create_workflow ''qa_agent'' = [''update_memory'']" by blast
  with mem run show ?thesis by blast
qed

text \<open>
  Claim C9. \<open>should_continue\<close> is a total function of the state. On a state without
  \<open>next_step\<close> it returns \<open>end\<close>; the conditional edge maps that to \<open>END\<close>, where a
  run finishes with the state as it is.
\<close>

theorem should_continue_without_next_step:
  assumes "next_step state = None"
  shows "should_continue state = ''end''
     \<and> next_node create_workflow ''classify_intent'' state = Inr END
     \<and> run_from cfg create_workflow limit END state = Finished state"
  using assms
  by (simp add: should_continue_def get_default_simps next_node_classify_intent run_from_END)

theorem should_continue_without_next_step_witness:
  "next_step new_session = None
   \<and> should_continue new_session = ''end''
   \<and> next_node create_workflow ''classify_intent'' new_session = Inr END"
proof -
  have absent: "next_step new_session = None"
    by (simp add: new_session_def no_keys_def)
  from should_continue_without_next_step [OF absent] absent show ?thesis by blast
qed

section \<open>Whole turns\<close>

lemma invoke_from_entry:
  "invoke cfg limit inp saved =
     run_from cfg create_workflow limit ''classify_intent'' (apply_update saved inp)"
  by (simp add: invoke_def create_workflow_def)

text \<open>The three ways from the classifier to a task handler.\<close>

lemma route_to_task:
  assumes "classify_intent cfg state = Inr upd"
    and "next_node create_workflow ''classify_intent'' (apply_update state upd) = Inr n"
  shows "(\<exists>r. intent upd = Some (Some r) \<and>
            (intent_type r, n) \<in> {(Lit_qa, ''qa_agent''),
                                  (Lit_summarization, ''summarization_agent''),
                                  (Lit_calculation, ''calculation_agent'')})"
proof -
  from should_continue_after_classify [OF assms(1)] obtain r where
    r: "intent upd = Some (Some r)"
    and sc: "should_continue (apply_update state upd) = literal_str (intent_type r)"
    by blast
  from assms(2) have "(intent_type r, n) \<in> {(Lit_qa, ''qa_agent''),
                                  (Lit_summarization, ''summarization_agent''),
                                  (Lit_calculation, ''calculation_agent'')}"
    by (cases "intent_type r") (simp_all add: next_node_classify_intent sc)
  with r show ?thesis by blast
qed

lemma route_unknown:
  assumes "classify_intent cfg state = Inr upd" and "intent upd = Some (Some r)"
    and "intent_type r = Lit_unknown"
  shows "run_from cfg create_workflow (Suc k) ''classify_intent'' state =
           Failed (KeyError ''unknown'') state"
proof -
  from should_continue_after_classify [OF assms(1)] assms(2,3)
  have "should_continue (apply_update state upd) = ''unknown''" by auto
  then have "next_node create_workflow ''classify_intent'' (apply_update state upd) =
               Inl (KeyError ''unknown'')"
    by (simp add: next_node_classify_intent)
  then show ?thesis
    by (simp only: run_classify_intent assms(1) sum.case)
qed

lemma classify_intent_keeps_memory:
  assumes "classify_intent cfg state = Inr upd"
  shows "conversation_summary (apply_update state upd) = conversation_summary state"
    and "active_documents (apply_update state upd) = active_documents state"
    and "messages (apply_update state upd) = messages state"
    and "actions_taken (apply_update state upd) =
           Some (get_default (actions_taken state) [] @ [''classify_intent''])"
  using assms
  by (auto elim!: classify_intent_Inr simp: apply_update_def last_value_simps no_keys_fields)

text \<open>
  Claim C4. A turn that starts in \<open>start\<close> (the saved state with the turn's input
  written), in which the classifier returns, the conditional edge selects a task
  handler and that handler raises \<open>e\<close>, ends with \<open>e\<close>. The state it leaves is the one
  after the classifier's step: \<open>conversation_summary\<close> and \<open>active_documents\<close> are those
  of \<open>start\<close>, and the trail has gained \<open>classify_intent\<close> and nothing else, so
  \<open>update_memory\<close> did not run.
\<close>

theorem task_handler_failure_keeps_memory:
  assumes "start = apply_update saved inp"
    and "classify_intent cfg start = Inr upd"
    and "next_node create_workflow ''classify_intent'' (apply_update start upd) = Inr n"
    and "(n, node) \<in> {(''qa_agent'', qa_agent),
                       (''summarization_agent'', summarization_agent),
                       (''calculation_agent'', calculation_agent)}"
    and "node cfg (apply_update start upd) = Inl e"
  shows "invoke cfg (Suc (Suc k)) inp saved = Failed e (apply_update start upd)
     \<and> conversation_summary (apply_update start upd) = conversation_summary start
     \<and> active_documents (apply_update start upd) = active_documents start
     \<and> actions_taken (apply_update start upd) =
          Some (get_default (actions_taken start) [] @ [''classify_intent''])"
proof -
  have "run_from cfg create_workflow (Suc k) n (apply_update start upd) =
          Failed e (apply_update start upd)"
    by (simp only: run_task [OF assms(4)] assms(5) sum.case)
  then have "run_from cfg create_workflow (Suc (Suc k)) ''classify_intent'' start =
          Failed e (apply_update start upd)"
    by (simp only: run_classify_intent assms(2,3) sum.case)
  then have "invoke cfg (Suc (Suc k)) inp saved = Failed e (apply_update start upd)"
    by (simp only: invoke_from_entry assms(1))
  with classify_intent_keeps_memory [OF assms(2)] show ?thesis by simp
qed

lemma scripted_classify:
  "classify_intent (scripted lit agent) (apply_update saved paris_input) =
     Inr (no_keys\<lparr>actions_taken := Some [''classify_intent''],
             intent := Some (Some \<lparr>intent_type = lit, confidence = 1,
                                   reasoning = ''What is the capital of France?''\<rparr>),
             next_step := Some (literal_str lit)\<rparr>)"
  by (simp add: classify_intent_def scripted_def apply_update_def paris_input_def
        no_keys_def last_value_def get_default_def)

theorem task_handler_failure_keeps_memory_witness:
  "classify_intent (scripted Lit_qa failing_agent) (apply_update summarised_session paris_input)
      = Inr qa_classified
   \<and> qa_agent (scripted Lit_qa failing_agent)
        (apply_update (apply_update summarised_session paris_input) qa_classified)
      = Inl (ValidationError ''AnswerResponse'')
   \<and> invoke (scripted Lit_qa failing_agent) 25 paris_input summarised_session
      = Failed (ValidationError ''AnswerResponse'')
          (apply_update (apply_update summarised_session paris_input) qa_classified)
   \<and> conversation_summary
        (apply_update (apply_update summarised_session paris_input) qa_classified)
      = Some ''old summary''
   \<and> active_documents
        (apply_update (apply_update summarised_session paris_input) qa_classified)
      = Some (Some (StrList [''d1'']))"
proof -
  let ?cfg = "scripted Lit_qa failing_agent"
  let ?start = "apply_update summarised_session paris_input"
  have classified: "classify_intent ?cfg ?start = Inr qa_classified"
    by (simp add: scripted_classify qa_classified_def)
  have route: "next_node create_workflow ''classify_intent'' (apply_update ?start qa_classified)
                 = Inr ''qa_agent''"
    by (simp add: next_node_classify_intent should_continue_def apply_update_fields
          qa_classified_def last_value_simps get_default_simps)
  have handler: "(''qa_agent'', qa_agent) \<in> {(''qa_agent'', qa_agent),
                       (''summarization_agent'', summarization_agent),
                       (''calculation_agent'', calculation_agent)}"
    by simp
  have raised: "qa_agent ?cfg (apply_update ?start qa_classified)
                  = Inl (ValidationError ''AnswerResponse'')"
    by (simp add: qa_agent_def task_agent_def invoke_react_agent_def scripted_def
          failing_agent_def apply_update_def paris_input_def no_keys_def last_value_def
          qa_classified_def)
  have limit: "(25::nat) = Suc (Suc 23)" by simp
  have start: "conversation_summary ?start = Some ''old summary''"
    "active_documents ?start = Some (Some (StrList [''d1'']))"
    by (simp_all add: apply_update_fields summarised_session_def paris_input_def
          new_session_def no_keys_def last_value_simps)
  from task_handler_failure_keeps_memory [OF refl classified route handler raised, of 23]
    classified raised start
  show ?thesis by (simp only: limit)
qed

text \<open>
  Claim C1. With a classifier that returns the intent \<open>unknown\<close> the turn does not reach
  \<open>END\<close>: \<open>next_step\<close> is the string \<open>unknown\<close>, the router returns it, the mapping of
  the conditional edge has no such key, and the turn ends with \<open>KeyError\<close>. No handler
  and no memory update has run; the classifier's own update is dropped with the failed
  step.
\<close>

theorem unknown_intent_raises_KeyError:
  "invoke (scripted Lit_unknown paris_agent) 25 paris_input new_session
     = Failed (KeyError ''unknown'') (apply_update new_session paris_input)"
proof -
  let ?r = "\<lparr>intent_type = Lit_unknown, confidence = 1,
             reasoning = ''What is the capital of France?''\<rparr>"
  let ?upd = "no_keys\<lparr>actions_taken := Some [''classify_intent''],
             intent := Some (Some ?r),
             next_step := Some (literal_str Lit_unknown)\<rparr>"
  have "run_from (scripted Lit_unknown paris_agent) create_workflow (Suc 24) ''classify_intent''
          (apply_update new_session paris_input)
        = Failed (KeyError ''unknown'') (apply_update new_session paris_input)"
    by (rule route_unknown [where upd = ?upd and r = ?r])
       (simp_all add: scripted_classify no_keys_def)
  moreover have "(25::nat) = Suc 24" by simp
  ultimately show ?thesis
    by (simp only: invoke_from_entry)
qed

text \<open>A turn that reaches \<open>END\<close> has gone through the classifier, one task handler and
  the consolidator, each of which returned.\<close>

lemma finished_turn:
  assumes "run_from cfg create_workflow limit ''classify_intent'' start = Finished final"
  obtains r u1 n node u2 u3 where
    "classify_intent cfg start = Inr u1" and "intent u1 = Some (Some r)"
    and "(intent_type r, n, node) \<in>
           {(Lit_qa, ''qa_agent'', qa_agent),
            (Lit_summarization, ''summarization_agent'', summarization_agent),
            (Lit_calculation, ''calculation_agent'', calculation_agent)}"
    and "node cfg (apply_update start u1) = Inr u2"
    and "update_memory cfg (apply_update (apply_update start u1) u2) = Inr u3"
    and "final = apply_update (apply_update (apply_update start u1) u2) u3"
proof -
  from assms obtain k where limit: "limit = Suc k"
    by (cases limit) (simp_all add: not_END run_from.simps(1))
  from assms obtain u1 where u1: "classify_intent cfg start = Inr u1"
    by (cases "classify_intent cfg start") (simp_all add: limit run_classify_intent)
  let ?s1 = "apply_update start u1"
  from assms u1 obtain n where n: "next_node create_workflow ''classify_intent'' ?s1 = Inr n"
    and run1: "run_from cfg create_workflow k n ?s1 = Finished final"
    by (cases "next_node create_workflow ''classify_intent'' ?s1")
       (simp_all add: limit run_classify_intent)
  from route_to_task [OF u1 n] obtain r where r: "intent u1 = Some (Some r)"
    and rn: "(intent_type r, n) \<in> {(Lit_qa, ''qa_agent''),
                                  (Lit_summarization, ''summarization_agent''),
                                  (Lit_calculation, ''calculation_agent'')}"
    by blast
  then obtain node where node: "(intent_type r, n, node) \<in>
           {(Lit_qa, ''qa_agent'', qa_agent),
            (Lit_summarization, ''summarization_agent'', summarization_agent),
            (Lit_calculation, ''calculation_agent'', calculation_agent)}"
    by auto
  then have task: "(n, node) \<in> {(''qa_agent'', qa_agent),
                         (''summarization_agent'', summarization_agent),
                         (''calculation_agent'', calculation_agent)}"
    by auto
  then have "n \<noteq> END" by (auto simp: END_def)
  with run1 obtain k' where k: "k = Suc k'"
    by (cases k) (simp_all add: run_from.simps(1))
  from run1 obtain u2 where u2: "node cfg ?s1 = Inr u2"
    and run2: "run_from cfg create_workflow k' ''update_memory'' (apply_update ?s1 u2) = Finished final"
    by (cases "node cfg ?s1") (simp_all only: k run_task [OF task] sum.case turn_result.simps)
  let ?s2 = "apply_update ?s1 u2"
  from run2 obtain k'' where k': "k' = Suc k''"
    by (cases k') (simp_all add: not_END run_from.simps(1))
  from run2 obtain u3 where u3: "update_memory cfg ?s2 = Inr u3"
    and final: "final = apply_update ?s2 u3"
    by (cases "update_memory cfg ?s2") (simp_all only: k' run_update_memory sum.case turn_result.simps)
  from u1 r node u2 u3 final show ?thesis by (rule that)
qed

text \<open>With enough steps, a turn in which the three nodes return reaches \<open>END\<close>.\<close>

lemma turn_finishes:
  assumes "classify_intent cfg start = Inr u1"
    and "next_node create_workflow ''classify_intent'' (apply_update start u1) = Inr n"
    and "(n, node) \<in> {(''qa_agent'', qa_agent),
                       (''summarization_agent'', summarization_agent),
                       (''calculation_agent'', calculation_agent)}"
    and "node cfg (apply_update start u1) = Inr u2"
    and "update_memory cfg (apply_update (apply_update start u1) u2) = Inr u3"
  shows "run_from cfg create_workflow (Suc (Suc (Suc k))) ''classify_intent'' start =
           Finished (apply_update (apply_update (apply_update start u1) u2) u3)"
  by (simp only: run_classify_intent run_task [OF assms(3)] run_update_memory assms sum.case)

lemma task_node_update:
  assumes "(l, n, node) \<in>
           {(Lit_qa, ''qa_agent'', qa_agent),
            (Lit_summarization, ''summarization_agent'', summarization_agent),
            (Lit_calculation, ''calculation_agent'', calculation_agent)}"
    and "node cfg state = Inr upd"
  shows "actions_taken upd = Some [n]" and "intent upd = None"
    and "conversation_summary upd = None" and "active_documents upd = None"
  using assms
  by (auto simp: qa_agent_def summarization_agent_def calculation_agent_def
        dest: task_agent_next_step)

lemma update_memory_update:
  assumes "update_memory cfg state = Inr upd"
  shows "actions_taken upd = Some [''update_memory'']" and "intent upd = None"
    and "messages upd = None"
  using assms by (auto elim!: update_memory_Inr simp: no_keys_fields)

lemma classify_intent_update:
  assumes "classify_intent cfg state = Inr upd"
  shows "actions_taken upd = Some [''classify_intent'']" and "messages upd = None"
  using assms by (auto elim!: classify_intent_Inr simp: no_keys_fields)

lemma actions_taken_after_input:
  "get_default (actions_taken (apply_update saved inp)) [] =
     get_default (actions_taken saved) [] @ get_default (actions_taken inp) []"
  by (simp add: apply_update_fields get_default_def split: option.splits)

section \<open>The trail of actions\<close>

text \<open>
  Claim C3, as stated, fails on the second turn of a session. The state of a session is
  kept between turns and \<open>actions_taken\<close> is merged by concatenation, so the second
  successful question-answering turn ends with six entries, not three.
\<close>

theorem second_qa_turn_has_six_actions:
  "finished (paris_turn new_session)
   \<and> finished (paris_turn (result_state (paris_turn new_session)))
   \<and> intent (result_state (paris_turn (result_state (paris_turn new_session))))
       = Some (Some \<lparr>intent_type = Lit_qa, confidence = 1,
                       reasoning = ''What is the capital of France?''\<rparr>)
   \<and> actions_taken (result_state (paris_turn (result_state (paris_turn new_session))))
       = Some [''classify_intent'', ''qa_agent'', ''update_memory'',
               ''classify_intent'', ''qa_agent'', ''update_memory'']
   \<and> actions_taken (result_state (paris_turn (result_state (paris_turn new_session))))
       \<noteq> Some [''classify_intent'', ''qa_agent'', ''update_memory'']"
  by code_simp

text \<open>
  Claim C3, amended. A turn that reaches \<open>END\<close> and was classified as \<open>qa\<close> ends with
  the trail the session had before the turn, then what the turn's input carried under
  \<open>actions_taken\<close>, then \<open>classify_intent\<close>, \<open>qa_agent\<close>, \<open>update_memory\<close> in that
  order. When both are empty (the first turn of a session) the trail is exactly these
  three.
\<close>

theorem qa_turn_appends_three_actions:
  assumes "invoke cfg recursion_limit inp saved = Finished final"
    and "intent final = Some (Some response)"
    and "intent_type response = Lit_qa"
  shows "actions_taken final =
           Some (get_default (actions_taken saved) [] @ get_default (actions_taken inp) [] @
                 [''classify_intent'', ''qa_agent'', ''update_memory''])
     \<and> (get_default (actions_taken saved) [] = [] \<and> get_default (actions_taken inp) [] = []
          \<longrightarrow> actions_taken final = Some [''classify_intent'', ''qa_agent'', ''update_memory''])"
proof -
  let ?start = "apply_update saved inp"
  from assms(1) have "run_from cfg create_workflow recursion_limit ''classify_intent'' ?start
                        = Finished final"
    by (simp only: invoke_from_entry)
  then obtain r u1 n node u2 u3 where
    u1: "classify_intent cfg ?start = Inr u1" and r: "intent u1 = Some (Some r)"
    and node: "(intent_type r, n, node) \<in>
           {(Lit_qa, ''qa_agent'', qa_agent),
            (Lit_summarization, ''summarization_agent'', summarization_agent),
            (Lit_calculation, ''calculation_agent'', calculation_agent)}"
    and u2: "node cfg (apply_update ?start u1) = Inr u2"
    and u3: "update_memory cfg (apply_update (apply_update ?start u1) u2) = Inr u3"
    and final: "final = apply_update (apply_update (apply_update ?start u1) u2) u3"
    by (rule finished_turn)
  have "intent final = Some (Some r)"
    by (simp add: final apply_update_fields last_value_simps r
          task_node_update(2) [OF node u2] update_memory_update(2) [OF u3])
  with assms(2,3) have "intent_type r = Lit_qa" by simp
  with node have n: "n = ''qa_agent''" by auto
  have "actions_taken final =
          Some (get_default (actions_taken ?start) [] @
                [''classify_intent'', ''qa_agent'', ''update_memory''])"
    by (simp add: final apply_update_fields get_default_simps n
          classify_intent_update(1) [OF u1] task_node_update(1) [OF node u2]
          update_memory_update(1) [OF u3])
  then show ?thesis by (simp add: actions_taken_after_input)
qed

theorem qa_turn_appends_three_actions_witness:
  "finished (paris_turn new_session)
   \<and> intent (result_state (paris_turn new_session))
       = Some (Some \<lparr>intent_type = Lit_qa, confidence = 1,
                       reasoning = ''What is the capital of France?''\<rparr>)
   \<and> actions_taken (result_state (paris_turn new_session))
       = Some [''classify_intent'', ''qa_agent'', ''update_memory'']"
proof -
  let ?r = "\<lparr>intent_type = Lit_qa, confidence = 1,
             reasoning = ''What is the capital of France?''\<rparr>"
  have fin: "finished (paris_turn new_session)" by code_simp
  then have run: "invoke (scripted Lit_qa paris_agent) 25 paris_input new_session
                    = Finished (result_state (paris_turn new_session))"
    by (cases "paris_turn new_session") (simp_all add: paris_turn_def)
  have classified: "intent (result_state (paris_turn new_session)) = Some (Some ?r)"
    by code_simp
  have qa: "intent_type ?r = Lit_qa" by simp
  have empty: "get_default (actions_taken new_session) [] = []
                 \<and> get_default (actions_taken paris_input) [] = []"
    by (simp add: new_session_def paris_input_def no_keys_def get_default_simps)
  from qa_turn_appends_three_actions [OF run classified qa] empty fin classified
  show ?thesis by blast
qed

section \<open>The message history\<close>




















end
